theory Spec2Isabelle
  imports Main "HOL-Library.List_Lexorder"
begin

section \<open>Python strings\<close>

text \<open>
  A Python \<open>str\<close> is a sequence of Unicode code points; it is modelled as a list of
  natural numbers. Lists are ordered lexicographically (\<open>List_Lexorder\<close>), which is
  the order Python's \<open>sorted\<close> uses on strings. \<open>str_lit\<close> reads an ASCII literal.
\<close>

type_synonym str = "nat list"

definition str_lit :: "string \<Rightarrow> str" where
  "str_lit s = map of_char s"

text \<open>\<open>str.isspace\<close> on one code point: the white space of \<open>str.strip()\<close>.\<close>

definition isspace :: "nat \<Rightarrow> bool" where
  "isspace c \<longleftrightarrow>
     (0x09 \<le> c \<and> c \<le> 0x0D) \<or> (0x1C \<le> c \<and> c \<le> 0x1F) \<or> c = 0x20 \<or> c = 0x85 \<or>
     c = 0xA0 \<or> c = 0x1680 \<or> (0x2000 \<le> c \<and> c \<le> 0x200A) \<or> c = 0x2028 \<or>
     c = 0x2029 \<or> c = 0x202F \<or> c = 0x205F \<or> c = 0x3000"

definition strip :: "str \<Rightarrow> str" where
  "strip s = rev (dropWhile isspace (rev (dropWhile isspace s)))"

text \<open>The line boundaries of \<open>str.splitlines()\<close>.\<close>

definition is_linebreak :: "nat \<Rightarrow> bool" where
  "is_linebreak c \<longleftrightarrow>
     c = 0x0A \<or> c = 0x0B \<or> c = 0x0C \<or> c = 0x0D \<or> c = 0x1C \<or> c = 0x1D \<or>
     c = 0x1E \<or> c = 0x85 \<or> c = 0x2028 \<or> c = 0x2029"

text \<open>
  \<open>splitlines_from line s\<close> scans \<open>s\<close> with the pending line \<open>line\<close>: a line boundary
  closes the pending line (CR LF counts as one boundary), and a pending line that is
  still empty at the end of the text is not reported.
\<close>

fun splitlines_from :: "str \<Rightarrow> str \<Rightarrow> str list" where
  "splitlines_from line [] = (if line = [] then [] else [line])"
| "splitlines_from line [c] =
     (if is_linebreak c then [line] else [line @ [c]])"
| "splitlines_from line (c # d # s) =
     (if c = 0x0D \<and> d = 0x0A then line # splitlines_from [] s
      else if is_linebreak c then line # splitlines_from [] (d # s)
      else splitlines_from (line @ [c]) (d # s))"

definition splitlines :: "str \<Rightarrow> str list" where
  "splitlines s = splitlines_from [] s"

text \<open>\<open>sep.join(xs)\<close>.\<close>

fun join :: "str \<Rightarrow> str list \<Rightarrow> str" where
  "join sep [] = []"
| "join sep [x] = x"
| "join sep (x # y # ys) = x @ sep @ join sep (y # ys)"

text \<open>
  Reading a file opened in text mode with the default \<open>newline=None\<close> turns CR LF and a
  lone CR into LF. Writing in text mode is the identity on a POSIX system.
\<close>

fun universal_newlines :: "str \<Rightarrow> str" where
  "universal_newlines [] = []"
| "universal_newlines [c] = (if c = 0x0D then [0x0A] else [c])"
| "universal_newlines (c # d # s) =
     (if c = 0x0D \<and> d = 0x0A then 0x0A # universal_newlines s
      else if c = 0x0D then 0x0A # universal_newlines (d # s)
      else c # universal_newlines (d # s))"

section \<open>The parsed markup\<close>

text \<open>
  The tree BeautifulSoup builds: a text node, or a tag with its name, the values of its
  \<open>class\<close> attribute and its children.
\<close>

datatype node = NavigableString str | Tag str "str list" "node list"

text \<open>All nodes below a node, in document order.\<close>

fun descendants :: "node \<Rightarrow> node list" where
  "descendants (NavigableString s) = []"
| "descendants (Tag nm cls kids) = concat (map (\<lambda>k. k # descendants k) kids)"

text \<open>The \<open>.text\<close> property: all text below a node, concatenated.\<close>

fun get_text :: "node \<Rightarrow> str" where
  "get_text (NavigableString s) = s"
| "get_text (Tag nm cls kids) = concat (map get_text kids)"

fun is_tag_named :: "str \<Rightarrow> node \<Rightarrow> bool" where
  "is_tag_named nm (NavigableString s) = False"
| "is_tag_named nm (Tag nm' cls kids) = (nm' = nm)"

definition tags_named :: "str \<Rightarrow> node \<Rightarrow> node list" where
  "tags_named nm n = filter (is_tag_named nm) (descendants n)"

text \<open>
  \<open>find_all(name=...)\<close> returns a result set, never \<open>None\<close>; the option type keeps the
  source's test \<open>rows is None\<close> a branch of the model. \<open>find(name=...)\<close> returns the
  first match or \<open>None\<close>.
\<close>

definition find_all :: "str \<Rightarrow> node \<Rightarrow> node list option" where
  "find_all nm n = Some (tags_named nm n)"

definition find_tag :: "str \<Rightarrow> node \<Rightarrow> node option" where
  "find_tag nm n = (case tags_named nm n of [] \<Rightarrow> None | x # _ \<Rightarrow> Some x)"

text \<open>\<open>soup.select('table.redeemcode')\<close>.\<close>

fun matches_table_redeemcode :: "node \<Rightarrow> bool" where
  "matches_table_redeemcode (NavigableString s) = False"
| "matches_table_redeemcode (Tag nm cls kids) =
     (nm = str_lit ''table'' \<and> str_lit ''redeemcode'' \<in> set cls)"

definition select_table_redeemcode :: "node \<Rightarrow> node list" where
  "select_table_redeemcode soup = filter matches_table_redeemcode (descendants soup)"

section \<open>Errors and state\<close>

text \<open>
  Every error the scraping code raises is a \<open>ValueError\<close>; the message tells the
  raising statement. The messages' payload (the raw markup) is left out.
\<close>

datatype message =
    Unexpected_number_of_items
  | Did_not_exact_interval nat
  | Expected_1_plus_3N_rows
  | Got_invalid_data

datatype error = ValueError message

text \<open>
  The state a cycle touches: the set \<open>CODE_MEMO\<close> that is passed as \<open>memo\<close>, and
  the content of the file \<open>ARGUMENTS.memo_filename\<close> (\<open>None\<close> while it does not exist).
  Opening, writing and reading the file are taken to succeed, and the file's encoding to
  give back the code points that were written.
\<close>

record state =
  CODE_MEMO :: "str set"
  memo_file :: "str option"

section \<open>The scraper of \<open>bot.py\<close>\<close>

definition get_redeem_code_table :: "node \<Rightarrow> error + node" where
  "get_redeem_code_table soup =
     (let elements = select_table_redeemcode soup
      in if length elements \<noteq> 1 then Inl (ValueError Unexpected_number_of_items)
         else Inr (elements ! 0))"

definition get_table_row_text :: "node \<Rightarrow> (str \<times> str) option" where
  "get_table_row_text row =
     (case find_tag (str_lit ''th'') row of
        None \<Rightarrow> None
      | Some header \<Rightarrow>
          (let header_text = strip (get_text header)
           in case find_tag (str_lit ''td'') row of
                None \<Rightarrow> None
              | Some data \<Rightarrow>
                  (let data_text = strip (get_text data)
                   in Some (header_text, data_text))))"

text \<open>
  A generator is consumed once, front to back: it yields a value and goes on, stops, or
  raises.
\<close>

datatype 'a generator = StopIteration | Yield 'a "'a generator" | Raise error

fun chunks_exact_from :: "'a list \<Rightarrow> 'a list \<Rightarrow> nat \<Rightarrow> 'a list generator" where
  "chunks_exact_from chunk [] interval =
     (if chunk \<noteq> [] then Raise (ValueError (Did_not_exact_interval (length chunk)))
      else StopIteration)"
| "chunks_exact_from chunk (item # iterable) interval =
     (let chunk = chunk @ [item]
      in if length chunk = interval then Yield chunk (chunks_exact_from [] iterable interval)
         else chunks_exact_from chunk iterable interval)"

definition chunks_exact :: "'a list \<Rightarrow> nat \<Rightarrow> 'a list generator" where
  "chunks_exact iterable interval = chunks_exact_from [] iterable interval"

fun parse_chunked_rows_from :: "(str \<rightharpoonup> str) \<Rightarrow> node list \<Rightarrow> (str \<rightharpoonup> str)" where
  "parse_chunked_rows_from data [] = data"
| "parse_chunked_rows_from data (row # chunk) =
     (case get_table_row_text row of
        None \<Rightarrow> parse_chunked_rows_from data chunk
      | Some row_data \<Rightarrow> parse_chunked_rows_from (data(fst row_data \<mapsto> snd row_data)) chunk)"

definition parse_chunked_rows :: "node list \<Rightarrow> (str \<rightharpoonup> str)" where
  "parse_chunked_rows chunk = parse_chunked_rows_from Map.empty chunk"

text \<open>
  The \<open>for\<close> loop of \<open>get_redeem_codes\<close>: it reads \<open>memo\<close> and changes only the
  local \<open>added\<close> and \<open>current\<close>.
\<close>

fun for_chunk ::
  "node list generator \<Rightarrow> str set \<Rightarrow> str list \<Rightarrow> str set \<Rightarrow> error + (str list \<times> str set)" where
  "for_chunk StopIteration memo added current = Inr (added, current)"
| "for_chunk (Raise e) memo added current = Inl e"
| "for_chunk (Yield chunk rest) memo added current =
     (let code_data = parse_chunked_rows chunk
      in case code_data (str_lit ''Code'') of
           None \<Rightarrow> Inl (ValueError Got_invalid_data)
         | Some code \<Rightarrow>
             for_chunk rest memo
               (if code \<notin> memo then added @ [code] else added)
               (insert code current))"

definition get_redeem_codes :: "node \<Rightarrow> state \<Rightarrow> (error + str list) \<times> state" where
  "get_redeem_codes table st =
     (let added = []; current = {}
      in case find_all (str_lit ''tr'') table of
           None \<Rightarrow> (Inr added, st)
         | Some rows \<Rightarrow>
             if (int (length rows) - 1) mod 3 \<noteq> 0
             then (Inl (ValueError Expected_1_plus_3N_rows), st)
             else
               (case for_chunk (chunks_exact (drop 1 rows) 3) (CODE_MEMO st) added current of
                  Inl e \<Rightarrow> (Inl e, st)
                | Inr (added, current) \<Rightarrow>
                    (Inr added,
                     st\<lparr>CODE_MEMO := {} \<union> current,
                        memo_file := Some (join [0x0A] (sorted_list_of_set current))\<rparr>)))"

text \<open>
  One tick of \<open>fetch_and_send_codes\<close>, from the parsed page on: the table parser, then
  the differ; the result is the list handed to the channel (\<open>None\<close> when nothing was
  added). An exception of either step leaves the tick at once.
\<close>

definition fetch_and_send_codes :: "node \<Rightarrow> state \<Rightarrow> (error + str list option) \<times> state" where
  "fetch_and_send_codes soup st =
     (case get_redeem_code_table soup of
        Inl e \<Rightarrow> (Inl e, st)
      | Inr table \<Rightarrow>
          (case get_redeem_codes table st of
             (Inl e, st') \<Rightarrow> (Inl e, st')
           | (Inr added, st') \<Rightarrow> (Inr (if added \<noteq> [] then Some added else None), st')))"

text \<open>
  The start of \<open>main\<close>, once token and channel are given: the memo file, if it exists,
  is read, split into lines, and its non-empty lines are added to \<open>CODE_MEMO\<close>.
\<close>

definition main :: "state \<Rightarrow> state" where
  "main st =
     (case memo_file st of
        None \<Rightarrow> st
      | Some content \<Rightarrow>
          (let redeem_codes = splitlines (universal_newlines content)
           in st\<lparr>CODE_MEMO := CODE_MEMO st \<union> set (filter (\<lambda>i. i \<noteq> []) redeem_codes)\<rparr>))"

section \<open>The scraper of \<open>redeem-code.py\<close>\<close>

text \<open>
  The second entry point defines the same four functions again. Its copies are
  transcribed from its own text, under the prefix \<open>rc_\<close>. They log through the root
  logger where \<open>bot.py\<close> logs through \<open>LOGGER\<close>; logging is not part of the model.
\<close>

definition rc_get_table_row_text :: "node \<Rightarrow> (str \<times> str) option" where
  "rc_get_table_row_text row =
     (case find_tag (str_lit ''th'') row of
        None \<Rightarrow> None
      | Some header \<Rightarrow>
          (let header_text = strip (get_text header)
           in case find_tag (str_lit ''td'') row of
                None \<Rightarrow> None
              | Some data \<Rightarrow>
                  (let data_text = strip (get_text data)
                   in Some (header_text, data_text))))"

fun rc_chunks_exact_from :: "'a list \<Rightarrow> 'a list \<Rightarrow> nat \<Rightarrow> 'a list generator" where
  "rc_chunks_exact_from chunk [] interval =
     (if chunk \<noteq> [] then Raise (ValueError (Did_not_exact_interval (length chunk)))
      else StopIteration)"
| "rc_chunks_exact_from chunk (item # iterable) interval =
     (let chunk = chunk @ [item]
      in if length chunk = interval
         then Yield chunk (rc_chunks_exact_from [] iterable interval)
         else rc_chunks_exact_from chunk iterable interval)"

definition rc_chunks_exact :: "'a list \<Rightarrow> nat \<Rightarrow> 'a list generator" where
  "rc_chunks_exact iterable interval = rc_chunks_exact_from [] iterable interval"

fun rc_parse_chunked_rows_from :: "(str \<rightharpoonup> str) \<Rightarrow> node list \<Rightarrow> (str \<rightharpoonup> str)" where
  "rc_parse_chunked_rows_from data [] = data"
| "rc_parse_chunked_rows_from data (row # chunk) =
     (case rc_get_table_row_text row of
        None \<Rightarrow> rc_parse_chunked_rows_from data chunk
      | Some row_data \<Rightarrow>
          rc_parse_chunked_rows_from (data(fst row_data \<mapsto> snd row_data)) chunk)"

definition rc_parse_chunked_rows :: "node list \<Rightarrow> (str \<rightharpoonup> str)" where
  "rc_parse_chunked_rows chunk = rc_parse_chunked_rows_from Map.empty chunk"

fun rc_for_chunk ::
  "node list generator \<Rightarrow> str set \<Rightarrow> str list \<Rightarrow> str set \<Rightarrow> error + (str list \<times> str set)" where
  "rc_for_chunk StopIteration memo added current = Inr (added, current)"
| "rc_for_chunk (Raise e) memo added current = Inl e"
| "rc_for_chunk (Yield chunk rest) memo added current =
     (let code_data = rc_parse_chunked_rows chunk
      in case code_data (str_lit ''Code'') of
           None \<Rightarrow> Inl (ValueError Got_invalid_data)
         | Some code \<Rightarrow>
             rc_for_chunk rest memo
               (if code \<notin> memo then added @ [code] else added)
               (insert code current))"

definition rc_get_redeem_codes :: "node \<Rightarrow> state \<Rightarrow> (error + str list) \<times> state" where
  "rc_get_redeem_codes table st =
     (let added = []; current = {}
      in case find_all (str_lit ''tr'') table of
           None \<Rightarrow> (Inr added, st)
         | Some rows \<Rightarrow>
             if (int (length rows) - 1) mod 3 \<noteq> 0
             then (Inl (ValueError Expected_1_plus_3N_rows), st)
             else
               (case rc_for_chunk (rc_chunks_exact (drop 1 rows) 3) (CODE_MEMO st) added current of
                  Inl e \<Rightarrow> (Inl e, st)
                | Inr (added, current) \<Rightarrow>
                    (Inr added,
                     st\<lparr>CODE_MEMO := {} \<union> current,
                        memo_file := Some (join [0x0A] (sorted_list_of_set current))\<rparr>)))"

section \<open>Notions the properties are stated with\<close>

text \<open>
  \<open>triples\<close> cuts a list into consecutive groups of three and \<open>yields\<close> is the
  generator that yields the elements of a list and then stops. \<open>row_groups\<close> are the
  3-row groups of a table after its first row, and \<open>extracted_codes\<close> are the \<open>Code\<close>
  values of the groups, in row order. \<open>has_code_header\<close> holds of a row whose header
  cell text strips to \<open>Code\<close>; \<open>has_code_entry\<close> holds of a row that has a data cell
  as well, so that \<open>get_table_row_text\<close> returns an entry under \<open>Code\<close> for it.
\<close>

fun triples :: "'a list \<Rightarrow> 'a list list" where
  "triples (a # b # c # xs) = [a, b, c] # triples xs"
| "triples xs = []"

fun yields :: "'a list \<Rightarrow> 'a generator" where
  "yields [] = StopIteration"
| "yields (x # xs) = Yield x (yields xs)"

text \<open>How a generator ends when it is run to its end: by stopping or by raising.\<close>

fun outcome :: "'a generator \<Rightarrow> error option" where
  "outcome StopIteration = None"
| "outcome (Raise e) = Some e"
| "outcome (Yield x rest) = outcome rest"

definition row_groups :: "node \<Rightarrow> node list list" where
  "row_groups table = triples (drop 1 (tags_named (str_lit ''tr'') table))"

definition rows_1_plus_3N :: "node \<Rightarrow> bool" where
  "rows_1_plus_3N table \<longleftrightarrow> length (tags_named (str_lit ''tr'') table) mod 3 = 1"

definition has_code_header :: "node \<Rightarrow> bool" where
  "has_code_header row =
     (case find_tag (str_lit ''th'') row of
        None \<Rightarrow> False
      | Some header \<Rightarrow> strip (get_text header) = str_lit ''Code'')"

definition has_code_entry :: "node \<Rightarrow> bool" where
  "has_code_entry row =
     (case get_table_row_text row of
        None \<Rightarrow> False
      | Some row_data \<Rightarrow> fst row_data = str_lit ''Code'')"

definition stated_well_formed :: "node \<Rightarrow> bool" where
  "stated_well_formed table \<longleftrightarrow>
     rows_1_plus_3N table \<and> list_all (list_ex has_code_header) (row_groups table)"

definition well_formed :: "node \<Rightarrow> bool" where
  "well_formed table \<longleftrightarrow>
     rows_1_plus_3N table \<and> list_all (list_ex has_code_entry) (row_groups table)"

definition extracted_codes :: "node \<Rightarrow> str list" where
  "extracted_codes table =
     List.map_filter (\<lambda>chunk. parse_chunked_rows chunk (str_lit ''Code'')) (row_groups table)"

text \<open>
  A code survives a line of the memo file when it is not empty and holds no line
  boundary.
\<close>

definition line_safe :: "str \<Rightarrow> bool" where
  "line_safe code \<longleftrightarrow> code \<noteq> [] \<and> \<not> list_ex is_linebreak code"

section \<open>Example pages\<close>

text \<open>
  The rows of the wiki table as the comment in \<open>get_redeem_codes\<close> shows them: a header
  row, then a \<open>Code\<close>, a \<open>Rewards\<close> and a \<open>Dates\<close> row for each code.
  \<open>code_header_only\<close> is a row with a \<open>Code\<close> header and no data cell, \<open>fresh\<close> the
  state of a process that has seen no code yet.
\<close>

definition row_of :: "string \<Rightarrow> string \<Rightarrow> node" where
  "row_of h d =
     Tag (str_lit ''tr'') []
       [Tag (str_lit ''th'') [] [NavigableString (str_lit h)],
        Tag (str_lit ''td'') [] [NavigableString (str_lit d)]]"

definition header_row :: node where
  "header_row =
     Tag (str_lit ''tr'') []
       [Tag (str_lit ''th'') [] [NavigableString (str_lit ''Currently Active Redeem Codes'')]]"

definition table_of :: "node list \<Rightarrow> node" where
  "table_of rows =
     Tag (str_lit ''table'') [str_lit ''redeemcode''] [Tag (str_lit ''tbody'') [] rows]"

definition entry :: "string \<Rightarrow> node list" where
  "entry c = [row_of ''Code'' c, row_of ''Rewards'' ''Gem x10'', row_of ''Dates'' ''Jan 1-31'']"

definition fresh :: state where
  "fresh = \<lparr>CODE_MEMO = {}, memo_file = None\<rparr>"

definition code_header_only :: node where
  "code_header_only =
     Tag (str_lit ''tr'') [] [Tag (str_lit ''th'') [] [NavigableString (str_lit ''Code'')]]"

definition document_of :: "node list \<Rightarrow> node" where
  "document_of nodes = Tag (str_lit ''[document]'') [] nodes"

section \<open>Auxiliary facts\<close>

lemmas run =
  row_of_def header_row_def table_of_def entry_def fresh_def str_lit_def
  get_redeem_codes_def find_all_def find_tag_def tags_named_def chunks_exact_def
  parse_chunked_rows_def get_table_row_text_def strip_def isspace_def
  well_formed_def stated_well_formed_def rows_1_plus_3N_def row_groups_def
  has_code_entry_def has_code_header_def extracted_codes_def
  get_redeem_code_table_def select_table_redeemcode_def fetch_and_send_codes_def
  main_def splitlines_def is_linebreak_def line_safe_def Let_def

lemma rows_1_plus_3N_iff:
  "rows_1_plus_3N table \<longleftrightarrow> (\<exists>N. length (tags_named (str_lit ''tr'') table) = 1 + 3 * N)"
  unfolding rows_1_plus_3N_def
  by presburger

lemma rows_mod_int:
  "(int (length (rows :: 'a list)) - 1) mod 3 = 0 \<longleftrightarrow> length rows mod 3 = 1"
  by presburger

lemma rows_drop_mod:
  "length (rows :: 'a list) mod 3 = 1 \<Longrightarrow> length (drop 1 rows) mod 3 = 0"
  by (simp, presburger)

lemma chunks_exact_from_triple:
  "chunks_exact_from [] (a # b # c # xs) 3 = Yield [a, b, c] (chunks_exact_from [] xs 3)"
  by simp

lemma chunks_exact_triples:
  "length xs mod 3 = 0 \<Longrightarrow> chunks_exact xs 3 = yields (triples xs)"
  unfolding chunks_exact_def
proof (induction xs rule: triples.induct)
  case (1 a b c xs)
  then have "length xs mod 3 = 0" by simp
  with 1 show ?case by (simp only: chunks_exact_from_triple triples.simps yields.simps)
qed simp_all

text \<open>
  The chunker alone: run to its end, it raises exactly when the length of the input is
  not a multiple of the interval, with the number of leftover items.
\<close>

lemma chunks_exact_from_outcome:
  "length chunk < interval \<Longrightarrow>
   outcome (chunks_exact_from chunk iterable interval) =
     (if (length chunk + length iterable) mod interval = 0 then None
      else Some (ValueError (Did_not_exact_interval ((length chunk + length iterable) mod interval))))"
proof (induction iterable arbitrary: chunk)
  case Nil
  then show ?case by auto
next
  case (Cons item iterable)
  show ?case
  proof (cases "length (chunk @ [item]) = interval")
    case True
    then have "outcome (chunks_exact_from chunk (item # iterable) interval) =
        outcome (chunks_exact_from [] iterable interval)"
      by simp
    moreover from Cons.prems have "0 < interval" by simp
    then have "length ([] :: 'a list) < interval" by simp
    moreover from True have "(length chunk + length (item # iterable)) mod interval =
        length iterable mod interval"
      by (metis add.commute add_Suc_right length_Cons length_append_singleton mod_add_self1 add_Suc)
    ultimately show ?thesis by (simp add: Cons.IH)
  next
    case False
    with Cons.prems have "length (chunk @ [item]) < interval" by simp
    from Cons.IH [OF this] False show ?thesis by simp
  qed
qed

lemma chunks_exact_outcome:
  "0 < interval \<Longrightarrow>
   outcome (chunks_exact iterable interval) =
     (if length iterable mod interval = 0 then None
      else Some (ValueError (Did_not_exact_interval (length iterable mod interval))))"
  unfolding chunks_exact_def using chunks_exact_from_outcome [of "[]" interval iterable] by simp

lemma parse_chunked_rows_from_key:
  "parse_chunked_rows_from data chunk k \<noteq> None \<longleftrightarrow>
     data k \<noteq> None \<or> list_ex (\<lambda>row. case get_table_row_text row of None \<Rightarrow> False
                                     | Some row_data \<Rightarrow> fst row_data = k) chunk"
  by (induction chunk arbitrary: data) (auto split: option.splits)

lemma parse_chunked_rows_Code:
  "parse_chunked_rows chunk (str_lit ''Code'') \<noteq> None \<longleftrightarrow> list_ex has_code_entry chunk"
  unfolding parse_chunked_rows_def has_code_entry_def
  using parse_chunked_rows_from_key [of Map.empty chunk "str_lit ''Code''"] by simp

lemma for_chunk_yields:
  "list_all (\<lambda>chunk. parse_chunked_rows chunk (str_lit ''Code'') \<noteq> None) chunks \<Longrightarrow>
   for_chunk (yields chunks) memo added current =
     Inr (added @ filter (\<lambda>code. code \<notin> memo)
                    (List.map_filter (\<lambda>chunk. parse_chunked_rows chunk (str_lit ''Code'')) chunks),
          current \<union> set (List.map_filter (\<lambda>chunk. parse_chunked_rows chunk (str_lit ''Code'')) chunks))"
  by (induction chunks arbitrary: added current) auto

lemma for_chunk_yields_invalid:
  "list_ex (\<lambda>chunk. parse_chunked_rows chunk (str_lit ''Code'') = None) chunks \<Longrightarrow>
   for_chunk (yields chunks) memo added current = Inl (ValueError Got_invalid_data)"
  by (induction chunks arbitrary: added current) (auto split: option.splits)

lemma get_redeem_codes_well_formed:
  assumes "well_formed table"
  shows "get_redeem_codes table st =
    (Inr (filter (\<lambda>code. code \<notin> CODE_MEMO st) (extracted_codes table)),
     st\<lparr>CODE_MEMO := set (extracted_codes table),
        memo_file := Some (join [0x0A] (sorted_list_of_set (set (extracted_codes table))))\<rparr>)"
proof -
  let ?rows = "tags_named (str_lit ''tr'') table"
  from assms have len: "length ?rows mod 3 = 1"
    and all: "list_all (list_ex has_code_entry) (row_groups table)"
    by (simp_all add: well_formed_def rows_1_plus_3N_def)
  from len have check: "(int (length ?rows) - 1) mod 3 = 0"
    by (simp only: rows_mod_int)
  from len have gen: "chunks_exact (drop 1 ?rows) 3 = yields (row_groups table)"
    unfolding row_groups_def by (intro chunks_exact_triples rows_drop_mod)
  from all have "list_all (\<lambda>chunk. parse_chunked_rows chunk (str_lit ''Code'') \<noteq> None)
      (row_groups table)"
    by (simp only: parse_chunked_rows_Code)
  then have loop: "for_chunk (yields (row_groups table)) (CODE_MEMO st) [] {} =
      Inr (filter (\<lambda>code. code \<notin> CODE_MEMO st) (extracted_codes table),
           set (extracted_codes table))"
    by (simp add: for_chunk_yields extracted_codes_def)
  show ?thesis
    unfolding get_redeem_codes_def find_all_def Let_def
    by (simp only: option.case check gen loop) simp
qed

lemma get_redeem_codes_invalid:
  assumes "rows_1_plus_3N table"
    and "list_ex (\<lambda>chunk. parse_chunked_rows chunk (str_lit ''Code'') = None) (row_groups table)"
  shows "get_redeem_codes table st = (Inl (ValueError Got_invalid_data), st)"
proof -
  let ?rows = "tags_named (str_lit ''tr'') table"
  from assms(1) have len: "length ?rows mod 3 = 1"
    by (simp add: rows_1_plus_3N_def)
  from len have check: "(int (length ?rows) - 1) mod 3 = 0"
    by (simp only: rows_mod_int)
  from len have gen: "chunks_exact (drop 1 ?rows) 3 = yields (row_groups table)"
    unfolding row_groups_def by (intro chunks_exact_triples rows_drop_mod)
  have loop: "for_chunk (yields (row_groups table)) (CODE_MEMO st) [] {} =
      Inl (ValueError Got_invalid_data)"
    using assms(2) by (rule for_chunk_yields_invalid)
  show ?thesis
    unfolding get_redeem_codes_def find_all_def Let_def
    by (simp only: option.case check gen loop) simp
qed

lemma concat_triples: "length xs mod 3 = 0 \<Longrightarrow> concat (triples xs) = xs"
  by (induction xs rule: triples.induct) simp_all

lemma length_triples: "list_all (\<lambda>g. length g = 3) (triples xs)"
  by (induction xs rule: triples.induct) simp_all

lemma rc_get_table_row_text_eq: "rc_get_table_row_text = get_table_row_text"
  by (rule ext) (simp add: rc_get_table_row_text_def get_table_row_text_def)

lemma rc_chunks_exact_from_eq:
  "rc_chunks_exact_from chunk iterable interval = chunks_exact_from chunk iterable interval"
  by (induction iterable arbitrary: chunk) (simp_all add: Let_def)

lemma rc_parse_chunked_rows_from_eq:
  "rc_parse_chunked_rows_from data chunk = parse_chunked_rows_from data chunk"
  by (induction chunk arbitrary: data) (simp_all add: rc_get_table_row_text_eq split: option.splits)

lemma rc_parse_chunked_rows_eq: "rc_parse_chunked_rows = parse_chunked_rows"
  by (rule ext)
    (simp add: rc_parse_chunked_rows_def parse_chunked_rows_def rc_parse_chunked_rows_from_eq)

lemma rc_for_chunk_eq:
  "rc_for_chunk g memo added current = for_chunk g memo added current"
  by (induction g memo added current rule: for_chunk.induct)
    (simp_all add: rc_parse_chunked_rows_eq split: option.splits)

lemma rc_chunks_exact_eq: "rc_chunks_exact = chunks_exact"
  by (intro ext) (simp add: rc_chunks_exact_def chunks_exact_def rc_chunks_exact_from_eq)

lemma universal_newlines_id: "0x0D \<notin> set s \<Longrightarrow> universal_newlines s = s"
  by (induction s rule: universal_newlines.induct) auto

lemma set_join: "set (join sep xs) \<subseteq> set sep \<union> (\<Union>x\<in>set xs. set x)"
  by (induction sep xs rule: join.induct) auto

lemma splitlines_from_line:
  "\<not> list_ex is_linebreak x \<Longrightarrow>
   splitlines_from line (x @ 0x0A # s) = (line @ x) # splitlines_from [] s"
proof (induction x arbitrary: line)
  case Nil
  show ?case by (cases s) (simp_all add: is_linebreak_def)
next
  case (Cons c x)
  then have c: "\<not> is_linebreak c" and x: "\<not> list_ex is_linebreak x" by simp_all
  from c have c13: "c \<noteq> 0x0D" by (auto simp: is_linebreak_def)
  obtain d t where dt: "x @ 0x0A # s = d # t" by (cases "x @ 0x0A # s") simp_all
  have "splitlines_from line ((c # x) @ 0x0A # s) = splitlines_from (line @ [c]) (x @ 0x0A # s)"
    using c c13 by (simp add: dt)
  also have "\<dots> = ((line @ [c]) @ x) # splitlines_from [] s"
    using x by (rule Cons.IH)
  finally show ?case by simp
qed

lemma splitlines_from_last:
  "\<not> list_ex is_linebreak x \<Longrightarrow> line @ x \<noteq> [] \<Longrightarrow> splitlines_from line x = [line @ x]"
proof (induction x arbitrary: line)
  case Nil
  then show ?case by simp
next
  case (Cons c x)
  then have c: "\<not> is_linebreak c" and x: "\<not> list_ex is_linebreak x" by simp_all
  from c have c13: "c \<noteq> 0x0D" by (auto simp: is_linebreak_def)
  show ?case
  proof (cases x)
    case Nil
    with c show ?thesis by simp
  next
    case (Cons d t)
    have "splitlines_from line (c # x) = splitlines_from (line @ [c]) x"
      using c c13 by (simp add: Cons)
    also have "\<dots> = [(line @ [c]) @ x]"
      using x by (rule Cons.IH) simp
    finally show ?thesis by simp
  qed
qed

lemma splitlines_join:
  "list_all line_safe xs \<Longrightarrow> splitlines (join [0x0A] xs) = xs"
  unfolding splitlines_def
proof (induction "[0x0A::nat]" xs rule: join.induct)
  case 1
  show ?case by simp
next
  case (2 x)
  then show ?case by (simp add: line_safe_def splitlines_from_last)
next
  case (3 x y ys)
  then show ?case by (simp add: line_safe_def splitlines_from_line)
qed

lemma join_no_CR:
  "list_all line_safe xs \<Longrightarrow> 0x0D \<notin> set (join [0x0A] xs)"
proof
  assume safe: "list_all line_safe xs" and "0x0D \<in> set (join [0x0A] xs)"
  with set_join [of "[0x0A]" xs] obtain x where "x \<in> set xs" "0x0D \<in> set x" by auto
  with safe have "list_ex is_linebreak x" "\<not> list_ex is_linebreak x"
    by (auto simp: list_all_iff list_ex_iff line_safe_def is_linebreak_def)
  then show False by simp
qed

lemma reload_join:
  assumes "list_all line_safe xs"
  shows "CODE_MEMO (main \<lparr>CODE_MEMO = {}, memo_file = Some (join [0x0A] xs)\<rparr>) = set xs"
proof -
  have "universal_newlines (join [0x0A] xs) = join [0x0A] xs"
    using assms by (intro universal_newlines_id join_no_CR)
  moreover have "splitlines (join [0x0A] xs) = xs"
    using assms by (rule splitlines_join)
  moreover have "{x \<in> set xs. x \<noteq> []} = set xs"
    using assms by (auto simp: list_all_iff line_safe_def)
  ultimately show ?thesis by (simp add: main_def)
qed

lemma for_chunk_finite:
  "for_chunk g memo added current = Inr (a, c) \<Longrightarrow> finite current \<Longrightarrow> finite c"
  by (induction g memo added current rule: for_chunk.induct) (auto split: option.splits)

lemma get_redeem_codes_success:
  assumes "get_redeem_codes table st = (Inr added, st')"
  shows "finite (CODE_MEMO st') \<and>
         memo_file st' = Some (join [0x0A] (sorted_list_of_set (CODE_MEMO st')))"
proof -
  let ?rows = "tags_named (str_lit ''tr'') table"
  from assms obtain current where
    loop: "for_chunk (chunks_exact (drop 1 ?rows) 3) (CODE_MEMO st) [] {} = Inr (added, current)"
    and st': "st' = st\<lparr>CODE_MEMO := current,
                        memo_file := Some (join [0x0A] (sorted_list_of_set current))\<rparr>"
    by (auto simp: get_redeem_codes_def find_all_def split: if_splits sum.splits prod.splits)
  from loop have "finite current" by (rule for_chunk_finite) simp
  with st' show ?thesis by simp
qed

lemma count_list_filter:
  "count_list (filter P xs) c = (if P c then count_list xs c else 0)"
  by (induction xs) auto

lemma count_list_distinct:
  "distinct xs \<Longrightarrow> c \<in> set xs \<Longrightarrow> count_list xs c = 1"
  by (induction xs) auto

text \<open>
  The two examples of the specification: one code and an empty memo, and a table that
  has its header row only.
\<close>

lemma spec_example:
  "get_redeem_codes (table_of (header_row # entry ''ABC123'')) fresh =
     (Inr [str_lit ''ABC123''],
      \<lparr>CODE_MEMO = {str_lit ''ABC123''}, memo_file = Some (str_lit ''ABC123'')\<rparr>)"
  by (simp add: run)

lemma spec_boundary:
  "get_redeem_codes (table_of [header_row]) fresh =
     (Inr [], \<lparr>CODE_MEMO = {}, memo_file = Some []\<rparr>)"
  by (simp add: run)

section \<open>The properties\<close>

subsection \<open>C1: the added list and the new memo\<close>

text \<open>
  \<^bold>\<open>C1\<close>, as stated: for every table whose row list has length \<open>1 + 3N\<close> and whose
  every 3-row group contains a row whose header cell text strips to \<open>Code\<close>
  (\<open>stated_well_formed\<close>), and for every prior memo, \<open>get_redeem_codes\<close> returns an
  added list whose set is the set of extracted codes minus the prior memo, and the memo
  afterwards is the set of extracted codes.

  The code does not do this on every such table. A row \<open><tr><th>Code</th></tr>\<close> has
  the header and no data cell; \<open>get_table_row_text\<close> returns \<open>None\<close> for it by its
  second guard, the group's mapping has no \<open>Code\<close> key, and the call raises. The
  counterexample is such a table.
\<close>

theorem stated_well_formed_counterexample:
  "stated_well_formed
     (table_of [header_row, code_header_only, row_of ''Rewards'' ''Gem x10'',
                row_of ''Dates'' ''Jan 1-31'']) \<and>
   get_redeem_codes
     (table_of [header_row, code_header_only, row_of ''Rewards'' ''Gem x10'',
                row_of ''Dates'' ''Jan 1-31'']) fresh =
     (Inl (ValueError Got_invalid_data), fresh)"
  by (simp add: run code_header_only_def)

text \<open>
  \<^bold>\<open>C1\<close>, amended: for every table whose row list has length \<open>1 + 3N\<close> and whose
  every 3-row group contains a row with a header cell whose text strips to \<open>Code\<close>
  and with a data cell (\<open>well_formed\<close>), and for every prior memo, \<open>get_redeem_codes\<close>
  returns an added list whose set is the set of extracted codes minus the prior memo, and
  the memo afterwards is exactly the set of extracted codes.
\<close>

theorem differ_added_and_memo:
  assumes "well_formed table"
  shows "\<exists>added st'. get_redeem_codes table st = (Inr added, st') \<and>
           set added = set (extracted_codes table) - CODE_MEMO st \<and>
           CODE_MEMO st' = set (extracted_codes table)"
  using get_redeem_codes_well_formed [OF assms, of st] by auto

theorem differ_added_and_memo_witness:
  "well_formed (table_of (header_row # entry ''ABC123'')) \<and>
   (\<exists>added st'.
      get_redeem_codes (table_of (header_row # entry ''ABC123'')) fresh = (Inr added, st') \<and>
      set added = set (extracted_codes (table_of (header_row # entry ''ABC123''))) - CODE_MEMO fresh \<and>
      CODE_MEMO st' = set (extracted_codes (table_of (header_row # entry ''ABC123''))))"
proof -
  have wf: "well_formed (table_of (header_row # entry ''ABC123''))"
    by (simp add: run)
  from differ_added_and_memo [OF wf, of fresh] wf show ?thesis by simp
qed

subsection \<open>C2: a code that occurs in several groups\<close>

text \<open>
  \<^bold>\<open>C2\<close>, as stated: when a code that is not in the memo occurs in more than one
  group of a well-formed table, only its first occurrence lands in the added list, and
  the current set and the persisted memo hold it once.

  The loop tests every occurrence against the memo as it was before the call, which the
  loop never changes, so every occurrence is appended. The counterexample is a table with
  the code \<open>A\<close> in two groups and an empty memo: the added list is \<open>[A, A]\<close>.
\<close>

theorem duplicate_code_counterexample:
  "well_formed (table_of (header_row # entry ''A'' @ entry ''A'')) \<and>
   str_lit ''A'' \<notin> CODE_MEMO fresh \<and>
   extracted_codes (table_of (header_row # entry ''A'' @ entry ''A'')) = [str_lit ''A'', str_lit ''A''] \<and>
   fst (get_redeem_codes (table_of (header_row # entry ''A'' @ entry ''A'')) fresh) =
     Inr [str_lit ''A'', str_lit ''A'']"
  by (simp add: run)

text \<open>
  \<^bold>\<open>C2\<close>, amended: when a code that is not in the memo occurs in more than one
  group of a well-formed table (\<open>well_formed\<close>: \<open>1 + 3N\<close> rows, and in every group a
  \<open>Code\<close> row with a data cell), every occurrence lands in the added list (the code
  stands in the added list as often as it occurs in the groups), the new memo holds the
  code, and the lines written to the memo file hold it exactly once.
\<close>

theorem duplicate_code_every_occurrence:
  assumes "well_formed table"
    and "code \<notin> CODE_MEMO st"
    and "1 < count_list (extracted_codes table) code"
  shows "\<exists>added st'. get_redeem_codes table st = (Inr added, st') \<and>
           count_list added code = count_list (extracted_codes table) code \<and>
           code \<in> CODE_MEMO st' \<and>
           memo_file st' = Some (join [0x0A] (sorted_list_of_set (CODE_MEMO st'))) \<and>
           count_list (sorted_list_of_set (CODE_MEMO st')) code = 1"
proof -
  let ?codes = "extracted_codes table"
  from assms(3) have mem: "code \<in> set ?codes"
    by (metis count_notin not_less_zero)
  then have "count_list (sorted_list_of_set (set ?codes)) code = 1"
    by (intro count_list_distinct) simp_all
  with mem assms(2) show ?thesis
    using get_redeem_codes_well_formed [OF assms(1), of st]
    by (simp add: count_list_filter)
qed

theorem duplicate_code_every_occurrence_witness:
  "well_formed (table_of (header_row # entry ''A'' @ entry ''B'' @ entry ''A'')) \<and>
   str_lit ''A'' \<notin> CODE_MEMO fresh \<and>
   1 < count_list (extracted_codes (table_of (header_row # entry ''A'' @ entry ''B'' @ entry ''A'')))
         (str_lit ''A'') \<and>
   (\<exists>added st'.
      get_redeem_codes (table_of (header_row # entry ''A'' @ entry ''B'' @ entry ''A'')) fresh =
        (Inr added, st') \<and>
      count_list added (str_lit ''A'') = 2 \<and>
      str_lit ''A'' \<in> CODE_MEMO st' \<and>
      memo_file st' = Some (join [0x0A] (sorted_list_of_set (CODE_MEMO st'))) \<and>
      count_list (sorted_list_of_set (CODE_MEMO st')) (str_lit ''A'') = 1)"
proof -
  let ?t = "table_of (header_row # entry ''A'' @ entry ''B'' @ entry ''A'')"
  have wf: "well_formed ?t"
    by (simp add: run)
  have new: "str_lit ''A'' \<notin> CODE_MEMO fresh"
    by (simp add: fresh_def)
  have codes: "extracted_codes ?t = [str_lit ''A'', str_lit ''B'', str_lit ''A'']"
    by (simp add: run)
  then have twice: "count_list (extracted_codes ?t) (str_lit ''A'') = 2"
    by (simp add: str_lit_def)
  then have dup: "1 < count_list (extracted_codes ?t) (str_lit ''A'')"
    by simp
  from duplicate_code_every_occurrence [OF wf new dup] wf new dup twice
  show ?thesis by simp
qed

subsection \<open>C3: a second call adds nothing\<close>

text \<open>
  \<^bold>\<open>C3\<close>, as stated: for every well-formed table (\<open>1 + 3N\<close> rows, and in every
  group a row whose header cell text strips to \<open>Code\<close>: \<open>stated_well_formed\<close>) and
  every starting memo, a second call of \<open>get_redeem_codes\<close> on the same table, started
  in the state the first call left, returns the empty added list.

  On a table that has a group whose \<open>Code\<close> row lacks its data cell, no call returns a
  list. In the counterexample the first group is valid and the second has a \<open>Code\<close>
  header only: the first call raises and leaves the state as it was, and the second call,
  started in that state, raises as well.
\<close>

theorem second_call_counterexample:
  "stated_well_formed
     (table_of (header_row # entry ''ABC123'' @
        [code_header_only, row_of ''Rewards'' ''Gem x10'', row_of ''Dates'' ''Jan 1-31''])) \<and>
   get_redeem_codes
     (table_of (header_row # entry ''ABC123'' @
        [code_header_only, row_of ''Rewards'' ''Gem x10'', row_of ''Dates'' ''Jan 1-31'']))
     \<lparr>CODE_MEMO = {str_lit ''OLD''}, memo_file = Some (str_lit ''OLD'')\<rparr> =
     (Inl (ValueError Got_invalid_data),
      \<lparr>CODE_MEMO = {str_lit ''OLD''}, memo_file = Some (str_lit ''OLD'')\<rparr>) \<and>
   fst (get_redeem_codes
     (table_of (header_row # entry ''ABC123'' @
        [code_header_only, row_of ''Rewards'' ''Gem x10'', row_of ''Dates'' ''Jan 1-31'']))
     (snd (get_redeem_codes
       (table_of (header_row # entry ''ABC123'' @
          [code_header_only, row_of ''Rewards'' ''Gem x10'', row_of ''Dates'' ''Jan 1-31'']))
       \<lparr>CODE_MEMO = {str_lit ''OLD''}, memo_file = Some (str_lit ''OLD'')\<rparr>))) =
     Inl (ValueError Got_invalid_data)"
  by (simp add: run code_header_only_def)

text \<open>
  \<^bold>\<open>C3\<close>, amended: for every table with \<open>1 + 3N\<close> rows in which every group has a
  row with a header cell whose text strips to \<open>Code\<close> and with a data cell
  (\<open>well_formed\<close>), and for every starting memo, the first call of \<open>get_redeem_codes\<close>
  succeeds, and a second call on the same table, started in the state the first call
  left, returns the empty added list.
\<close>

theorem second_call_adds_nothing:
  assumes "well_formed table"
  shows "\<exists>added st'. get_redeem_codes table st = (Inr added, st') \<and>
           fst (get_redeem_codes table st') = Inr []"
proof -
  let ?st' = "st\<lparr>CODE_MEMO := set (extracted_codes table),
                  memo_file := Some (join [0x0A] (sorted_list_of_set (set (extracted_codes table))))\<rparr>"
  have "fst (get_redeem_codes table ?st') = Inr []"
    by (simp add: get_redeem_codes_well_formed [OF assms])
  then show ?thesis
    using get_redeem_codes_well_formed [OF assms, of st] by simp
qed

theorem second_call_adds_nothing_witness:
  "well_formed (table_of (header_row # entry ''ABC123'')) \<and>
   (\<exists>added st'.
      get_redeem_codes (table_of (header_row # entry ''ABC123'')) fresh = (Inr added, st') \<and>
      fst (get_redeem_codes (table_of (header_row # entry ''ABC123'')) st') = Inr [])"
proof -
  have wf: "well_formed (table_of (header_row # entry ''ABC123''))"
    by (simp add: run)
  from second_call_adds_nothing [OF wf, of fresh] wf show ?thesis by simp
qed

subsection \<open>C4: a row count that is not \<open>1 + 3N\<close>\<close>

text \<open>
  \<^bold>\<open>C4\<close>: for every table whose row count minus one is not divisible by three
  (computed on integers, as Python does), \<open>get_redeem_codes\<close> raises the
  \<open>ValueError\<close> of the row-count check, and the memo set and the memo file are as they
  were before the call.
\<close>

theorem row_count_error_keeps_memo:
  assumes "(int (length (tags_named (str_lit ''tr'') table)) - 1) mod 3 \<noteq> 0"
  shows "get_redeem_codes table st = (Inl (ValueError Expected_1_plus_3N_rows), st)"
  using assms by (simp add: get_redeem_codes_def find_all_def)

theorem row_count_error_keeps_memo_witness:
  "(int (length (tags_named (str_lit ''tr'')
       (table_of [header_row, row_of ''Code'' ''A'', row_of ''Rewards'' ''Gem x10''])) ) - 1) mod 3 = 2 \<and>
   get_redeem_codes (table_of [header_row, row_of ''Code'' ''A'', row_of ''Rewards'' ''Gem x10''])
       \<lparr>CODE_MEMO = {str_lit ''OLD''}, memo_file = Some (str_lit ''OLD'')\<rparr> =
     (Inl (ValueError Expected_1_plus_3N_rows),
      \<lparr>CODE_MEMO = {str_lit ''OLD''}, memo_file = Some (str_lit ''OLD'')\<rparr>)"
proof -
  let ?t = "table_of [header_row, row_of ''Code'' ''A'', row_of ''Rewards'' ''Gem x10'']"
  have n: "(int (length (tags_named (str_lit ''tr'') ?t)) - 1) mod 3 = 2"
    by (simp add: run)
  then have "(int (length (tags_named (str_lit ''tr'') ?t)) - 1) mod 3 \<noteq> 0"
    by simp
  from row_count_error_keeps_memo [OF this] n show ?thesis by simp
qed

subsection \<open>C5: a group without a \<open>Code\<close> key\<close>

text \<open>
  \<^bold>\<open>C5\<close>: for every table with \<open>1 + 3N\<close> rows in which the mapping extracted from
  some 3-row group has no \<open>Code\<close> key, \<open>get_redeem_codes\<close> raises the
  \<open>ValueError\<close> of the loop body, and the memo set and the memo file are as they were
  before the call, wherever the group stands. In the table of the witness the first group
  is valid and the second is not.
\<close>

theorem missing_code_error_keeps_memo:
  assumes "rows_1_plus_3N table"
    and "list_ex (\<lambda>chunk. parse_chunked_rows chunk (str_lit ''Code'') = None) (row_groups table)"
  shows "get_redeem_codes table st = (Inl (ValueError Got_invalid_data), st)"
  using assms by (rule get_redeem_codes_invalid)

theorem missing_code_error_keeps_memo_witness:
  "rows_1_plus_3N (table_of (header_row # entry ''A'' @
       [row_of ''Rewards'' ''Gem x10'', row_of ''Rewards'' ''Gem x10'', row_of ''Dates'' ''Jan 1-31''])) \<and>
   list_ex (\<lambda>chunk. parse_chunked_rows chunk (str_lit ''Code'') = None)
     (row_groups (table_of (header_row # entry ''A'' @
       [row_of ''Rewards'' ''Gem x10'', row_of ''Rewards'' ''Gem x10'', row_of ''Dates'' ''Jan 1-31'']))) \<and>
   get_redeem_codes (table_of (header_row # entry ''A'' @
       [row_of ''Rewards'' ''Gem x10'', row_of ''Rewards'' ''Gem x10'', row_of ''Dates'' ''Jan 1-31'']))
       \<lparr>CODE_MEMO = {str_lit ''OLD''}, memo_file = Some (str_lit ''OLD'')\<rparr> =
     (Inl (ValueError Got_invalid_data),
      \<lparr>CODE_MEMO = {str_lit ''OLD''}, memo_file = Some (str_lit ''OLD'')\<rparr>)"
proof -
  let ?t = "table_of (header_row # entry ''A'' @
       [row_of ''Rewards'' ''Gem x10'', row_of ''Rewards'' ''Gem x10'', row_of ''Dates'' ''Jan 1-31''])"
  have n: "rows_1_plus_3N ?t"
    by (simp add: run)
  have bad: "list_ex (\<lambda>chunk. parse_chunked_rows chunk (str_lit ''Code'') = None) (row_groups ?t)"
    by (simp add: run)
  from missing_code_error_keeps_memo [OF n bad] n bad show ?thesis by simp
qed

subsection \<open>C6: writing the memo and reading it back\<close>

text \<open>
  \<^bold>\<open>C6\<close>, as stated: for every memo set that \<open>get_redeem_codes\<close> persists, and for
  all code strings, reading the written file the way \<open>main\<close> does gives the same set.

  A code is the stripped text of a data cell: it can be empty, and it can hold a line
  boundary inside. The file format is one code per line, and \<open>main\<close> drops empty lines,
  so such codes do not come back. The counterexample runs \<open>get_redeem_codes\<close> on a table
  with an empty \<open>Code\<close> cell (the memo holds the empty string and is read back as
  the empty set) and on a table whose code is \<open>A\<close>, line feed, \<open>B\<close> (read back as the
  two codes \<open>A\<close> and \<open>B\<close>).
\<close>

theorem memo_round_trip_counterexample:
  "(\<exists>st'. get_redeem_codes (table_of (header_row # entry '''')) fresh = (Inr [[]], st') \<and>
          CODE_MEMO st' = {[]} \<and>
          CODE_MEMO (main \<lparr>CODE_MEMO = {}, memo_file = memo_file st'\<rparr>) = {}) \<and>
   (\<exists>st'. get_redeem_codes (table_of (header_row # entry [CHR ''A'', CHR 0x0A, CHR ''B''])) fresh =
            (Inr [[65, 10, 66]], st') \<and>
          CODE_MEMO st' = {[65, 10, 66]} \<and>
          CODE_MEMO (main \<lparr>CODE_MEMO = {}, memo_file = memo_file st'\<rparr>) = {[65], [66]})"
  by (auto simp: run)

text \<open>
  \<^bold>\<open>C6\<close>, amended: for every memo set that \<open>get_redeem_codes\<close> persists and whose
  codes are all non-empty and free of line boundaries (\<open>line_safe\<close>), the file holds
  the codes of the set in sorted order, joined by line feeds (so it depends on the set
  alone, not on the order of insertion), and reading it the way \<open>main\<close> does into an
  empty \<open>CODE_MEMO\<close> gives exactly the same set.
\<close>

theorem memo_round_trip:
  assumes "get_redeem_codes table st = (Inr added, st')"
    and "\<forall>code \<in> CODE_MEMO st'. line_safe code"
  shows "memo_file st' = Some (join [0x0A] (sorted_list_of_set (CODE_MEMO st'))) \<and>
         CODE_MEMO (main \<lparr>CODE_MEMO = {}, memo_file = memo_file st'\<rparr>) = CODE_MEMO st'"
proof -
  from assms(1) have fin: "finite (CODE_MEMO st')"
    and written: "memo_file st' = Some (join [0x0A] (sorted_list_of_set (CODE_MEMO st')))"
    using get_redeem_codes_success by blast+
  from fin assms(2) have "list_all line_safe (sorted_list_of_set (CODE_MEMO st'))"
    by (simp add: list_all_iff)
  then have "CODE_MEMO (main \<lparr>CODE_MEMO = {},
      memo_file = Some (join [0x0A] (sorted_list_of_set (CODE_MEMO st')))\<rparr>) =
      set (sorted_list_of_set (CODE_MEMO st'))"
    by (rule reload_join)
  with fin written show ?thesis by simp
qed

theorem memo_round_trip_witness:
  "get_redeem_codes (table_of (header_row # entry ''B'' @ entry ''A'')) fresh =
     (Inr [str_lit ''B'', str_lit ''A''],
      \<lparr>CODE_MEMO = {str_lit ''A'', str_lit ''B''},
       memo_file = Some (str_lit ''A'' @ [0x0A] @ str_lit ''B'')\<rparr>) \<and>
   list_all line_safe [str_lit ''A'', str_lit ''B''] \<and>
   CODE_MEMO (main \<lparr>CODE_MEMO = {}, memo_file = Some (str_lit ''A'' @ [0x0A] @ str_lit ''B'')\<rparr>) =
     {str_lit ''A'', str_lit ''B''}"
proof -
  let ?st' = "\<lparr>CODE_MEMO = {str_lit ''A'', str_lit ''B''},
       memo_file = Some (str_lit ''A'' @ [0x0A] @ str_lit ''B'')\<rparr>"
  have run1: "get_redeem_codes (table_of (header_row # entry ''B'' @ entry ''A'')) fresh =
     (Inr [str_lit ''B'', str_lit ''A''], ?st')"
    by (simp add: run)
  have safe: "\<forall>code \<in> CODE_MEMO ?st'. line_safe code"
    by (simp add: run)
  have safe_list: "list_all line_safe [str_lit ''A'', str_lit ''B'']"
    by (simp add: run)
  from memo_round_trip [OF run1 safe]
  have "CODE_MEMO (main \<lparr>CODE_MEMO = {}, memo_file = memo_file ?st'\<rparr>) = CODE_MEMO ?st'"
    by (rule conjunct2)
  then have reload:
    "CODE_MEMO (main \<lparr>CODE_MEMO = {}, memo_file = Some (str_lit ''A'' @ [0x0A] @ str_lit ''B'')\<rparr>) =
       {str_lit ''A'', str_lit ''B''}"
    by (simp only: state.select_convs)
  from run1 safe_list reload show ?thesis by (intro conjI)
qed

subsection \<open>C7: the table parser\<close>

text \<open>
  \<^bold>\<open>C7\<close>: for every parsed page, \<open>get_redeem_code_table\<close> returns a table exactly
  when \<open>table.redeemcode\<close> selects exactly one element, and the table it returns is that
  element. When the selector matches no element or more than one, it raises, and the
  tick \<open>fetch_and_send_codes\<close> ends with that error and the state it started with: the
  differ is not reached.
\<close>

theorem table_parser_exactly_one:
  "((\<exists>table. get_redeem_code_table soup = Inr table) \<longleftrightarrow>
      length (select_table_redeemcode soup) = 1) \<and>
   (get_redeem_code_table soup = Inr table \<longrightarrow> select_table_redeemcode soup = [table]) \<and>
   (length (select_table_redeemcode soup) \<noteq> 1 \<longrightarrow>
      get_redeem_code_table soup = Inl (ValueError Unexpected_number_of_items) \<and>
      fetch_and_send_codes soup st = (Inl (ValueError Unexpected_number_of_items), st))"
proof -
  have "select_table_redeemcode soup = [table]"
    if "get_redeem_code_table soup = Inr table"
  proof -
    from that have len: "length (select_table_redeemcode soup) = 1"
      and hd: "select_table_redeemcode soup ! 0 = table"
      by (auto simp: get_redeem_code_table_def Let_def split: if_splits)
    then show ?thesis
      by (cases "select_table_redeemcode soup") simp_all
  qed
  then show ?thesis
    by (auto simp: get_redeem_code_table_def fetch_and_send_codes_def Let_def)
qed

theorem table_parser_exactly_one_witness:
  "get_redeem_code_table (document_of [table_of (header_row # entry ''A'')]) =
     Inr (table_of (header_row # entry ''A'')) \<and>
   select_table_redeemcode (document_of [table_of (header_row # entry ''A'')]) =
     [table_of (header_row # entry ''A'')] \<and>
   length (select_table_redeemcode (document_of [])) = 0 \<and>
   fetch_and_send_codes (document_of []) fresh =
     (Inl (ValueError Unexpected_number_of_items), fresh) \<and>
   length (select_table_redeemcode (document_of [table_of [], table_of []])) = 2 \<and>
   fetch_and_send_codes (document_of [table_of [], table_of []]) fresh =
     (Inl (ValueError Unexpected_number_of_items), fresh)"
proof -
  have one: "get_redeem_code_table (document_of [table_of (header_row # entry ''A'')]) =
     Inr (table_of (header_row # entry ''A''))"
    by (simp add: run document_of_def)
  have zero: "length (select_table_redeemcode (document_of [])) = 0"
    by (simp add: run document_of_def)
  have two: "length (select_table_redeemcode (document_of [table_of [], table_of []])) = 2"
    by (simp add: run document_of_def)
  from table_parser_exactly_one
         [of "document_of [table_of (header_row # entry ''A'')]"
             "table_of (header_row # entry ''A'')" fresh]
       table_parser_exactly_one [of "document_of []" "table_of []" fresh]
       table_parser_exactly_one [of "document_of [table_of [], table_of []]" "table_of []" fresh]
       one zero two
  show ?thesis by simp
qed

subsection \<open>C8: the order of the added list\<close>

text \<open>
  \<^bold>\<open>C8\<close>: for every well-formed table (\<open>well_formed\<close>: \<open>1 + 3N\<close> rows, and in
  every group a \<open>Code\<close> row with a data cell), the 3-row groups are the rows after the first
  one, cut in order into groups of three, and the added list is the list of the groups'
  codes in that order, without the codes of the prior memo. It is not sorted: in the
  witness the table lists \<open>B\<close>, \<open>OLD\<close>, \<open>A\<close>, the memo holds \<open>OLD\<close>, and the added
  list is \<open>[B, A]\<close>.
\<close>

theorem added_in_row_order:
  assumes "well_formed table"
  shows "concat (row_groups table) = drop 1 (tags_named (str_lit ''tr'') table) \<and>
         list_all (\<lambda>chunk. length chunk = 3) (row_groups table) \<and>
         fst (get_redeem_codes table st) =
           Inr (filter (\<lambda>code. code \<notin> CODE_MEMO st) (extracted_codes table))"
proof -
  from assms have "length (drop 1 (tags_named (str_lit ''tr'') table)) mod 3 = 0"
    by (intro rows_drop_mod) (simp add: well_formed_def rows_1_plus_3N_def)
  then have "concat (row_groups table) = drop 1 (tags_named (str_lit ''tr'') table)"
    unfolding row_groups_def by (rule concat_triples)
  moreover have "list_all (\<lambda>chunk. length chunk = 3) (row_groups table)"
    unfolding row_groups_def by (rule length_triples)
  ultimately show ?thesis
    by (simp add: get_redeem_codes_well_formed [OF assms])
qed

theorem added_in_row_order_witness:
  "well_formed (table_of (header_row # entry ''B'' @ entry ''OLD'' @ entry ''A'')) \<and>
   fst (get_redeem_codes (table_of (header_row # entry ''B'' @ entry ''OLD'' @ entry ''A''))
         \<lparr>CODE_MEMO = {str_lit ''OLD''}, memo_file = Some (str_lit ''OLD'')\<rparr>) =
     Inr [str_lit ''B'', str_lit ''A''] \<and>
   sort [str_lit ''B'', str_lit ''A''] = [str_lit ''A'', str_lit ''B'']"
proof -
  let ?t = "table_of (header_row # entry ''B'' @ entry ''OLD'' @ entry ''A'')"
  have wf: "well_formed ?t"
    by (simp add: run)
  have codes: "extracted_codes ?t = [str_lit ''B'', str_lit ''OLD'', str_lit ''A'']"
    by (simp add: run)
  from added_in_row_order [OF wf, of "\<lparr>CODE_MEMO = {str_lit ''OLD''}, memo_file = Some (str_lit ''OLD'')\<rparr>"]
    wf codes
  show ?thesis by (simp add: str_lit_def)
qed

subsection \<open>C9: the two entry points\<close>

text \<open>
  \<^bold>\<open>C9\<close>: \<open>get_table_row_text\<close>, \<open>chunks_exact\<close>, \<open>parse_chunked_rows\<close> and
  \<open>get_redeem_codes\<close> of \<open>redeem-code.py\<close> are the same functions as those of
  \<open>bot.py\<close>: on every table and state they return the same added list or raise the
  same error, and leave the same memo and memo file.
\<close>

theorem entry_points_agree:
  "rc_get_table_row_text = get_table_row_text \<and>
   rc_chunks_exact iterable interval = chunks_exact iterable interval \<and>
   rc_parse_chunked_rows = parse_chunked_rows \<and>
   rc_get_redeem_codes = get_redeem_codes"
proof -
  have "rc_get_redeem_codes table st = get_redeem_codes table st" for table st
    unfolding rc_get_redeem_codes_def get_redeem_codes_def rc_for_chunk_eq rc_chunks_exact_eq
    by (rule refl)
  then have "rc_get_redeem_codes = get_redeem_codes"
    by (intro ext)
  then show ?thesis
    by (simp add: rc_get_table_row_text_eq rc_chunks_exact_eq rc_parse_chunked_rows_eq)
qed

theorem entry_points_agree_witness:
  "rc_get_redeem_codes (table_of (header_row # entry ''ABC123'')) fresh =
     get_redeem_codes (table_of (header_row # entry ''ABC123'')) fresh \<and>
   rc_get_redeem_codes (table_of [header_row, code_header_only]) fresh =
     get_redeem_codes (table_of [header_row, code_header_only]) fresh"
  using entry_points_agree [of "[]::nat list" 3] by simp

subsection \<open>C10: a table without rows\<close>

text \<open>
  \<^bold>\<open>C10\<close>: \<open>find_all\<close> never returns \<open>None\<close>, so the branch of \<open>get_redeem_codes\<close>
  that returns the empty added list for \<open>rows is None\<close> is not taken. For an empty row
  list the check computes \<open>(0 - 1) mod 3 = 2\<close>, and \<open>get_redeem_codes\<close> raises the
  \<open>ValueError\<close> of the row-count check, with the memo set and the memo file as they were
  before the call.
\<close>

theorem empty_row_list_raises:
  "find_all (str_lit ''tr'') table \<noteq> None \<and>
   (int (length ([] :: node list)) - 1) mod 3 = 2 \<and>
   (find_all (str_lit ''tr'') table = Some [] \<longrightarrow>
      get_redeem_codes table st = (Inl (ValueError Expected_1_plus_3N_rows), st))"
  by (simp add: get_redeem_codes_def find_all_def)

theorem empty_row_list_raises_witness:
  "find_all (str_lit ''tr'') (table_of []) = Some [] \<and>
   get_redeem_codes (table_of []) \<lparr>CODE_MEMO = {str_lit ''OLD''}, memo_file = Some (str_lit ''OLD'')\<rparr> =
     (Inl (ValueError Expected_1_plus_3N_rows),
      \<lparr>CODE_MEMO = {str_lit ''OLD''}, memo_file = Some (str_lit ''OLD'')\<rparr>)"
proof -
  have rows: "find_all (str_lit ''tr'') (table_of []) = Some []"
    by (simp add: run)
  from empty_row_list_raises
         [of "table_of []" "\<lparr>CODE_MEMO = {str_lit ''OLD''}, memo_file = Some (str_lit ''OLD'')\<rparr>"]
       rows
  show ?thesis by simp
qed

end
